theory Spec2Isabelle
  imports Complex_Main
begin

section \<open>The DEPLOY\_COLLECTION action of plugin-solana-agentkit\<close>

text \<open>
  The development embeds \<^verbatim>\<open>actions/deployCollection.ts\<close>: the zod schema
  \<^verbatim>\<open>collectionSchema\<close>, the metadata pre-check \<^verbatim>\<open>validateMetadataUri\<close> and the
  action's \<^verbatim>\<open>handler\<close>. The handler is an \<^verbatim>\<open>async\<close> function whose body is one
  \<^verbatim>\<open>try\<close>/\<^verbatim>\<open>catch\<close>; every \<^verbatim>\<open>await\<close> is sequential, so one invocation is a
  function from the behaviour of the outside world to the list of calls made, in order,
  and the way the returned promise settles.
\<close>

subsection \<open>JavaScript values\<close>

text \<open>
  The object produced by the language model and the body of the metadata document are
  parsed JSON, so they are arbitrary JSON values. Numbers are IEEE doubles in the source;
  every finite double is a rational, and the source only compares numbers with constants
  and tests them for zero, so \<^typ>\<open>rat\<close> carries them. \<^verbatim>\<open>NaN\<close> does not occur in
  parsed JSON. An object is the list of its own properties; the first entry of a key is
  the one a lookup sees.
\<close>

datatype jv =
    JUndefined
  | JNull
  | JBool bool
  | JNum rat
  | JStr string
  | JArr "jv list"
  | JObj "(string \<times> jv) list"

text \<open>JavaScript truthiness, as used by \<^verbatim>\<open>!\<close>, \<^verbatim>\<open>&&\<close> and \<^verbatim>\<open>||\<close>.\<close>

fun truthy :: "jv \<Rightarrow> bool" where
  "truthy JUndefined = False"
| "truthy JNull = False"
| "truthy (JBool b) = b"
| "truthy (JNum r) = (r \<noteq> 0)"
| "truthy (JStr s) = (s \<noteq> [])"
| "truthy (JArr xs) = True"
| "truthy (JObj kvs) = True"

text \<open>
  An optional string (\<^verbatim>\<open>string | undefined | null\<close>): \<open>None\<close> is the missing value,
  which is falsy, as is the empty string.
\<close>

fun truthy_str :: "string option \<Rightarrow> bool" where
  "truthy_str None = False"
| "truthy_str (Some s) = (s \<noteq> [])"

fun jv_of_setting :: "string option \<Rightarrow> jv" where
  "jv_of_setting None = JNull"
| "jv_of_setting (Some s) = JStr s"

text \<open>The property \<open>k\<close> of an object literal: \<^verbatim>\<open>undefined\<close> when the key is absent.\<close>

definition property :: "(string \<times> jv) list \<Rightarrow> string \<Rightarrow> jv" where
  "property kvs k = (case map_of kvs k of None \<Rightarrow> JUndefined | Some v \<Rightarrow> v)"

text \<open>
  A thrown value (equally, the reason of a rejected promise). JavaScript lets any value
  be thrown. The handler's \<^verbatim>\<open>catch\<close> block only reads \<^verbatim>\<open>error.message\<close>, so a thrown
  value is either \<^verbatim>\<open>null\<close>/\<^verbatim>\<open>undefined\<close>, on which that read is itself a TypeError,
  or any other value, given by its \<^verbatim>\<open>message\<close> property: a string for an \<^verbatim>\<open>Error\<close>
  object, \<open>None\<close> when the value has no such property.
\<close>

datatype thrown = Nullish | Thrown "string option"

text \<open>\<^verbatim>\<open>error.message\<close>: \<open>None\<close> is the TypeError of reading a property of a nullish value.\<close>

fun error_message :: "thrown \<Rightarrow> string option option" where
  "error_message Nullish = None"
| "error_message (Thrown m) = Some m"

text \<open>A value inside a template literal: \<^verbatim>\<open>undefined\<close> prints as the word.\<close>

fun interpolate :: "string option \<Rightarrow> string" where
  "interpolate None = ''undefined''"
| "interpolate (Some s) = s"

subsection \<open>The schema\<close>

text \<open>
  \<^verbatim>\<open>collectionSchema\<close> is a zod object schema. Parsing collects the issues of all fields,
  in the order of the schema's keys, and throws a \<^verbatim>\<open>ZodError\<close> holding them when there
  is one; otherwise it returns a fresh object holding the schema's keys only. An issue is
  its zod code and the path of the offending value.
\<close>

datatype seg = Key string | Idx nat

datatype issue_code = invalid_type | too_small | too_big | invalid_string

datatype issue = Issue issue_code "seg list"

record creator =
  address :: string
  percentage :: rat

text \<open>The type zod infers for the schema: the two optional keys may be missing.\<close>

record collection_params =
  name :: string
  uri :: string
  royaltyBasisPoints :: "rat option"
  creators :: "creator list option"

text \<open>Two parsed parts of one value: zod reports the issues of both.\<close>

fun both :: "issue list + 'a \<Rightarrow> issue list + 'b \<Rightarrow> issue list + ('a \<times> 'b)" where
  "both (Inr a) (Inr b) = Inr (a, b)"
| "both (Inl e) (Inr b) = Inl e"
| "both (Inr a) (Inl f) = Inl f"
| "both (Inl e) (Inl f) = Inl (e @ f)"

text \<open>\<^verbatim>\<open>z.string().min(1, "Name is required")\<close>\<close>

definition parse_name :: "jv \<Rightarrow> issue list + string" where
  "parse_name v = (case v of
      JStr s \<Rightarrow> if length s < 1 then Inl [Issue too_small [Key ''name'']] else Inr s
    | _ \<Rightarrow> Inl [Issue invalid_type [Key ''name'']])"

text \<open>
  \<^verbatim>\<open>z.string().url("URI must be a valid URL")\<close>. What zod takes for a URL is decided by
  the URL parser of the JavaScript runtime; it is the parameter \<open>isUrl\<close>.
\<close>

definition parse_uri :: "(string \<Rightarrow> bool) \<Rightarrow> jv \<Rightarrow> issue list + string" where
  "parse_uri isUrl v = (case v of
      JStr s \<Rightarrow> if isUrl s then Inr s else Inl [Issue invalid_string [Key ''uri'']]
    | _ \<Rightarrow> Inl [Issue invalid_type [Key ''uri'']])"

text \<open>\<^verbatim>\<open>z.number().min(0).max(10000).optional()\<close>: both bounds are inclusive.\<close>

definition parse_royaltyBasisPoints :: "jv \<Rightarrow> issue list + rat option" where
  "parse_royaltyBasisPoints v = (case v of
      JUndefined \<Rightarrow> Inr None
    | JNum r \<Rightarrow>
        if r < 0 then Inl [Issue too_small [Key ''royaltyBasisPoints'']]
        else if r > 10000 then Inl [Issue too_big [Key ''royaltyBasisPoints'']]
        else Inr (Some r)
    | _ \<Rightarrow> Inl [Issue invalid_type [Key ''royaltyBasisPoints'']])"

text \<open>\<^verbatim>\<open>z.object({ address: z.string(), percentage: z.number().min(0).max(100) })\<close>,
  as element \<open>i\<close> of the array.\<close>

definition parse_address :: "nat \<Rightarrow> jv \<Rightarrow> issue list + string" where
  "parse_address i v = (case v of
      JStr s \<Rightarrow> Inr s
    | _ \<Rightarrow> Inl [Issue invalid_type [Key ''creators'', Idx i, Key ''address'']])"

definition parse_percentage :: "nat \<Rightarrow> jv \<Rightarrow> issue list + rat" where
  "parse_percentage i v = (case v of
      JNum r \<Rightarrow>
        if r < 0 then Inl [Issue too_small [Key ''creators'', Idx i, Key ''percentage'']]
        else if r > 100 then Inl [Issue too_big [Key ''creators'', Idx i, Key ''percentage'']]
        else Inr r
    | _ \<Rightarrow> Inl [Issue invalid_type [Key ''creators'', Idx i, Key ''percentage'']])"

definition parse_creator :: "nat \<Rightarrow> jv \<Rightarrow> issue list + creator" where
  "parse_creator i v = (case v of
      JObj kvs \<Rightarrow>
        (case both (parse_address i (property kvs ''address''))
                   (parse_percentage i (property kvs ''percentage'')) of
           Inl e \<Rightarrow> Inl e
         | Inr (a, p) \<Rightarrow> Inr \<lparr>address = a, percentage = p\<rparr>)
    | _ \<Rightarrow> Inl [Issue invalid_type [Key ''creators'', Idx i]])"

text \<open>The elements of the array from index \<open>i\<close> on.\<close>

fun parse_elements :: "nat \<Rightarrow> jv list \<Rightarrow> issue list + creator list" where
  "parse_elements i [] = Inr []"
| "parse_elements i (v # vs) =
     (case both (parse_creator i v) (parse_elements (Suc i) vs) of
        Inl e \<Rightarrow> Inl e
      | Inr (c, cs) \<Rightarrow> Inr (c # cs))"

text \<open>\<^verbatim>\<open>z.array(...).optional()\<close>\<close>

definition parse_creators :: "jv \<Rightarrow> issue list + creator list option" where
  "parse_creators v = (case v of
      JUndefined \<Rightarrow> Inr None
    | JArr vs \<Rightarrow> (case parse_elements 0 vs of Inl e \<Rightarrow> Inl e | Inr cs \<Rightarrow> Inr (Some cs))
    | _ \<Rightarrow> Inl [Issue invalid_type [Key ''creators'']])"

text \<open>\<^verbatim>\<open>collectionSchema.parse(params)\<close>: \<open>Inl\<close> is the thrown \<^verbatim>\<open>ZodError\<close>.\<close>

definition collectionSchema_parse :: "(string \<Rightarrow> bool) \<Rightarrow> jv \<Rightarrow> issue list + collection_params" where
  "collectionSchema_parse isUrl params = (case params of
      JObj kvs \<Rightarrow>
        (case both (both (parse_name (property kvs ''name''))
                         (parse_uri isUrl (property kvs ''uri'')))
                   (both (parse_royaltyBasisPoints (property kvs ''royaltyBasisPoints''))
                         (parse_creators (property kvs ''creators''))) of
           Inl e \<Rightarrow> Inl e
         | Inr ((n, u), (r, cs)) \<Rightarrow>
             Inr \<lparr>name = n, uri = u, royaltyBasisPoints = r, creators = cs\<rparr>)
    | _ \<Rightarrow> Inl [Issue invalid_type []])"

subsection \<open>The prompt template\<close>

definition collectionTemplate :: string where
  "collectionTemplate =
     ''\<newline>'' @
     ''Extract the NFT collection details from this message in JSON format.\<newline>'' @
     ''Message: \"{{message.content.text}}\"\<newline>'' @
     ''Rules:\<newline>'' @
     ''- Name: Full collection name\<newline>'' @
     ''- URI: Must be a complete metadata JSON URL that contains:\<newline>'' @
     ''  * name\<newline>'' @
     ''  * description\<newline>'' @
     ''  * image URL\<newline>'' @
     ''  * attributes/properties\<newline>'' @
     ''  Example URI: \"https://arweave.net/[hash]/metadata.json\" or \"https://gateway.pinata.cloud/ipfs/[hash]\"\<newline>'' @
     ''- Royalty Basis Points: A number between 0-10000 (500 = 5%)\<newline>'' @
     ''- Creators: Array of objects with 'address' and 'percentage'\<newline>'' @
     ''\<newline>'' @
     ''If no URI is specified, use this default metadata URI:\<newline>'' @
     ''\"https://raw.githubusercontent.com/solana-developers/opos-asset/main/assets/CompressedCoil/metadata.json\"\<newline>'' @
     ''\<newline>'' @
     ''Example Response:\<newline>'' @
     ''```json\<newline>'' @
     ''{\<newline>'' @
     ''    \"name\": \"My NFT Collection\",\<newline>'' @
     ''    \"uri\": \"https://arweave.net/123abc/metadata.json\",\<newline>'' @
     ''    \"royaltyBasisPoints\": 500,\<newline>'' @
     ''    \"creators\": [\<newline>'' @
     ''        { \"address\": \"SOLANA_ADDRESS\", \"percentage\": 100 }\<newline>'' @
     ''    ]\<newline>'' @
     ''}\<newline>'' @
     ''```\<newline>'' @
     ''\<newline>'' @
     ''If any required field is missing, use these defaults:\<newline>'' @
     ''- royaltyBasisPoints: 500 (5%)\<newline>'' @
     ''- creators: [{ \"address\": \"<wallet_address>\", \"percentage\": 100 }]\<newline>''"

subsection \<open>The outside world\<close>

text \<open>
  The incoming \<^verbatim>\<open>Memory\<close>: the handler reads \<^verbatim>\<open>message.content.text\<close>,
  \<^verbatim>\<open>message.content.source\<close> and \<^verbatim>\<open>message.userId\<close>.
\<close>

record memory =
  content_text :: "string option"
  content_source :: "string option"
  userId :: string

text \<open>
  A constructed \<^verbatim>\<open>SolanaAgentKit\<close>: the handler reads \<^verbatim>\<open>wallet_address.toString()\<close>
  from it, the public key of the key pair the kit built from the private key it was given.
\<close>

record kit =
  wallet_address :: string

text \<open>The object literal handed to \<^verbatim>\<open>solanaAgentKit.deployCollection\<close>.\<close>

record collection_request =
  req_name :: string
  req_uri :: string
  req_royaltyBasisPoints :: rat
  req_creators :: "creator list"

text \<open>What \<^verbatim>\<open>deployCollection\<close> resolves to: the collection's public key, as its
  \<^verbatim>\<open>toString()\<close> prints it, and the signature.\<close>

record deploy_result =
  collectionAddress :: string
  signature :: string

text \<open>
  Everything the handler calls but does not define. A call that can throw (or return a
  promise that rejects) returns \<open>Inl\<close> of the thrown value; every call is taken to
  return or to throw, so that an invocation ends.
  \<^item> \<open>isUrl\<close>: the URL syntax check behind zod's \<^verbatim>\<open>.url()\<close>;
  \<^item> \<open>zodMessage\<close>: the \<^verbatim>\<open>message\<close> of a \<^verbatim>\<open>ZodError\<close> holding the given issues;
  \<^item> \<open>getSetting\<close>: \<^verbatim>\<open>runtime.getSetting(key)\<close>, a lookup in the agent's settings;
  \<^item> \<open>getMetrics\<close>: \<^verbatim>\<open>runtime.databaseAdapter.getMetrics(userId)\<close>;
  \<^item> \<open>composeContext\<close>: the prompt built from the state and a template;
  \<^item> \<open>generateObjectDeprecated\<close>: the language model's answer to a prompt, parsed;
  \<^item> \<open>fetchJson\<close>: \<^verbatim>\<open>fetch(uri)\<close> followed by \<^verbatim>\<open>response.json()\<close>, which throws
    when the request fails or the body is not JSON;
  \<^item> \<open>newSolanaAgentKit\<close>: the constructor, given the private key, the RPC URL and the
    OpenAI key; it throws on a private key it cannot decode;
  \<^item> \<open>deployCollection\<close>: the SDK call.
\<close>

record 's world =
  isUrl :: "string \<Rightarrow> bool"
  zodMessage :: "issue list \<Rightarrow> string"
  getSetting :: "string \<Rightarrow> string option"
  getMetrics :: "string \<Rightarrow> thrown + jv"
  composeContext :: "'s \<Rightarrow> string \<Rightarrow> string"
  generateObjectDeprecated :: "string \<Rightarrow> thrown + jv"
  fetchJson :: "string \<Rightarrow> thrown + jv"
  newSolanaAgentKit :: "string option \<Rightarrow> string option \<Rightarrow> string option \<Rightarrow> thrown + kit"
  deployCollection :: "kit \<Rightarrow> collection_request \<Rightarrow> thrown + deploy_result"

text \<open>What the callback receives: \<^verbatim>\<open>{ text, content }\<close>.\<close>

datatype reply_content =
    Success (success_collectionAddress: string) (success_name: string) (success_signature: string)
  | Error (error: "string option")

record reply =
  reply_text :: string
  reply_content :: reply_content

text \<open>
  The calls one invocation makes, in the order they are made. A call is recorded when it
  is made, whether it returns or throws: the database lookup with the user's id, the one
  call of \<^verbatim>\<open>generateObjectDeprecated\<close> with its prompt, the fetch with its URL, the
  SDK call with its request, the callback with its reply. Reading a setting, composing the
  prompt, parsing and constructing the kit reach nothing outside the process and are not
  recorded; nor is logging.
\<close>

datatype event =
    EvGetMetrics string
  | EvModel string
  | EvFetch string
  | EvDeploy collection_request
  | EvCallback reply

text \<open>How the promise returned by the handler settles: it resolves to a boolean, or it
  rejects with the TypeError raised inside the \<^verbatim>\<open>catch\<close> block.\<close>

datatype outcome = Returned bool | RejectedTypeError

record result =
  outcome :: outcome
  trace :: "event list"

subsection \<open>The metadata pre-check\<close>

text \<open>
  \<^verbatim>\<open>metadata.name\<close> and its two siblings: reading a property of \<^verbatim>\<open>null\<close> throws
  a TypeError, which is \<open>None\<close> here; an object has the property or not; no other JSON
  value has a property of one of these three names.
\<close>

fun member :: "jv \<Rightarrow> string \<Rightarrow> jv option" where
  "member JNull k = None"
| "member JUndefined k = None"
| "member (JObj kvs) k = Some (property kvs k)"
| "member v k = Some JUndefined"

text \<open>
  \<^verbatim>\<open>validateMetadataUri\<close>: whatever is thrown inside is caught and gives \<^verbatim>\<open>false\<close>.
  \<^verbatim>\<open>a && b\<close> evaluates \<open>b\<close> only when \<open>a\<close> is truthy.
\<close>

definition validateMetadataUri :: "'s world \<Rightarrow> string \<Rightarrow> bool" where
  "validateMetadataUri w u = (case fetchJson w u of
      Inl e \<Rightarrow> False
    | Inr metadata \<Rightarrow>
        (case member metadata ''name'' of
           None \<Rightarrow> False
         | Some n \<Rightarrow> truthy n \<and>
             (case member metadata ''description'' of
                None \<Rightarrow> False
              | Some d \<Rightarrow> truthy d \<and>
                  (case member metadata ''image'' of
                     None \<Rightarrow> False
                   | Some i \<Rightarrow> truthy i))))"

subsection \<open>The handler\<close>

definition fallback_uri :: string where
  "fallback_uri = ''https://raw.githubusercontent.com/solana-developers/opos-asset/main/assets/CompressedCoil/metadata.json''"

text \<open>\<^verbatim>\<open>runtime.getSetting("DEFAULT_NFT_METADATA_URI") || "https://raw..."\<close>\<close>

definition default_uri :: "'s world \<Rightarrow> string" where
  "default_uri w =
     (case getSetting w ''DEFAULT_NFT_METADATA_URI'' of
        None \<Rightarrow> fallback_uri
      | Some s \<Rightarrow> if s = [] then fallback_uri else s)"

text \<open>
  The argument of \<^verbatim>\<open>deployCollection\<close> (lines 157 to 167). \<^verbatim>\<open>x || d\<close> is \<open>d\<close> when
  \<open>x\<close> is falsy: a missing value, and also the number 0; every array is truthy.
\<close>

definition deploy_request :: "kit \<Rightarrow> collection_params \<Rightarrow> collection_request" where
  "deploy_request solanaAgentKit validatedParams =
     \<lparr>req_name = name validatedParams,
      req_uri = uri validatedParams,
      req_royaltyBasisPoints =
        (case royaltyBasisPoints validatedParams of
           None \<Rightarrow> 500
         | Some r \<Rightarrow> if r = 0 then 500 else r),
      req_creators =
        (case creators validatedParams of
           None \<Rightarrow> [\<lparr>address = wallet_address solanaAgentKit, percentage = 100\<rparr>]
         | Some cs \<Rightarrow> cs)\<rparr>"

definition success_reply :: "collection_params \<Rightarrow> deploy_result \<Rightarrow> reply" where
  "success_reply validatedParams r =
     \<lparr>reply_text = ''Successfully deployed NFT collection \"'' @ name validatedParams @
                    ''\"! Collection address: '' @ collectionAddress r,
      reply_content = Success (collectionAddress r) (name validatedParams) (signature r)\<rparr>"

definition failure_reply :: "string option \<Rightarrow> reply" where
  "failure_reply m =
     \<lparr>reply_text = ''Failed to deploy collection: '' @ interpolate m,
      reply_content = Error m\<rparr>"

definition empty_reply :: reply where
  "empty_reply =
     \<lparr>reply_text = ''Cannot process empty message content'',
      reply_content = Error (Some ''Empty message content'')\<rparr>"

text \<open>
  \<^verbatim>\<open>if (callback) { callback(r); }\<close>: the callback is an optional argument of the
  handler, \<open>has_callback\<close> says whether it was passed. It is the caller's own function
  and is taken to return.
\<close>

definition call_back :: "bool \<Rightarrow> reply \<Rightarrow> event list" where
  "call_back has_callback r = (if has_callback then [EvCallback r] else [])"

text \<open>
  A part of the \<^verbatim>\<open>try\<close> block: the calls it made, and \<open>Inr\<close> of the value it returned
  or \<open>Inl\<close> of what it threw.
\<close>

type_synonym block = "event list \<times> (thrown + bool)"

text \<open>Lines 145 to 181: construct the kit, deploy, report.\<close>

definition deploy_block :: "'s world \<Rightarrow> bool \<Rightarrow> collection_params \<Rightarrow> block" where
  "deploy_block w has_callback validatedParams =
     (let solanaPrivatekey = getSetting w ''SOLANA_PRIVATE_KEY'';
          rpc = getSetting w ''SOLANA_RPC_URL'';
          openAIKey = getSetting w ''OPENAI_API_KEY''
      in case newSolanaAgentKit w solanaPrivatekey rpc openAIKey of
           Inl e \<Rightarrow> ([], Inl e)
         | Inr solanaAgentKit \<Rightarrow>
             (let request = deploy_request solanaAgentKit validatedParams
              in case deployCollection w solanaAgentKit request of
                   Inl e \<Rightarrow> ([EvDeploy request], Inl e)
                 | Inr r \<Rightarrow>
                     (EvDeploy request # call_back has_callback (success_reply validatedParams r),
                      Inr True)))"

text \<open>
  Lines 132 to 143: the pre-check, with its fallback. \<^verbatim>\<open>||\<close> does not evaluate its
  right operand when the left one is truthy, so an empty \<^verbatim>\<open>uri\<close> is not fetched.
\<close>

definition metadata_block :: "'s world \<Rightarrow> collection_params \<Rightarrow> event list \<times> collection_params" where
  "metadata_block w validatedParams =
     (if uri validatedParams = [] then
        ([], validatedParams\<lparr>uri := default_uri w\<rparr>)
      else if \<not> validateMetadataUri w (uri validatedParams) then
        ([EvFetch (uri validatedParams)], validatedParams\<lparr>uri := default_uri w\<rparr>)
      else
        ([EvFetch (uri validatedParams)], validatedParams))"

text \<open>Lines 96 to 181, the \<^verbatim>\<open>try\<close> block.\<close>

definition try_block :: "'s world \<Rightarrow> memory \<Rightarrow> 's \<Rightarrow> bool \<Rightarrow> block" where
  "try_block w message state has_callback =
     (if \<not> truthy_str (content_text message) \<and> \<not> truthy_str (content_source message) then
        (call_back has_callback empty_reply, Inr False)
      else
        case getMetrics w (userId message) of
          Inl e \<Rightarrow> ([EvGetMetrics (userId message)], Inl e)
        | Inr m \<Rightarrow>
            (let userMetrics =
                   (if truthy m then m
                    else JObj [(''defaultRoyalty'', JNum 500),
                               (''defaultCreator'', jv_of_setting (getSetting w ''SOLANA_PUBLIC_KEY''))]);
                 context = composeContext w state collectionTemplate
             in case generateObjectDeprecated w context of
                  Inl e \<Rightarrow> ([EvGetMetrics (userId message), EvModel context], Inl e)
                | Inr params \<Rightarrow>
                    (case collectionSchema_parse (isUrl w) params of
                       Inl issues \<Rightarrow>
                         ([EvGetMetrics (userId message), EvModel context],
                          Inl (Thrown (Some (zodMessage w issues))))
                     | Inr validatedParams \<Rightarrow>
                         (let (fetched, validatedParams') = metadata_block w validatedParams;
                              (deployed, r) = deploy_block w has_callback validatedParams'
                          in ([EvGetMetrics (userId message), EvModel context] @ fetched @ deployed, r)))))"

text \<open>
  The handler: the \<^verbatim>\<open>try\<close> block, and the \<^verbatim>\<open>catch\<close> block of lines 182 to 191, which
  reads \<^verbatim>\<open>error.message\<close> only when there is a callback.
\<close>

definition handler :: "'s world \<Rightarrow> memory \<Rightarrow> 's \<Rightarrow> bool \<Rightarrow> result" where
  "handler w message state has_callback =
     (case try_block w message state has_callback of
        (tr, Inr b) \<Rightarrow> \<lparr>outcome = Returned b, trace = tr\<rparr>
      | (tr, Inl e) \<Rightarrow>
          if has_callback then
            (case error_message e of
               None \<Rightarrow> \<lparr>outcome = RejectedTypeError, trace = tr\<rparr>
             | Some m \<Rightarrow> \<lparr>outcome = Returned False, trace = tr @ [EvCallback (failure_reply m)]\<rparr>)
          else \<lparr>outcome = Returned False, trace = tr\<rparr>)"

subsection \<open>Reading a trace\<close>

fun deploys :: "event list \<Rightarrow> collection_request list" where
  "deploys [] = []"
| "deploys (EvDeploy r # es) = r # deploys es"
| "deploys (e # es) = deploys es"

fun model_calls :: "event list \<Rightarrow> nat" where
  "model_calls [] = 0"
| "model_calls (EvModel c # es) = Suc (model_calls es)"
| "model_calls (e # es) = model_calls es"

fun fetches :: "event list \<Rightarrow> string list" where
  "fetches [] = []"
| "fetches (EvFetch u # es) = u # fetches es"
| "fetches (e # es) = fetches es"

fun replies :: "event list \<Rightarrow> reply list" where
  "replies [] = []"
| "replies (EvCallback r # es) = r # replies es"
| "replies (e # es) = replies es"

subsection \<open>A concrete world\<close>

text \<open>
  One world to run the handler in. Its URL check is a stand-in that accepts what starts
  with \<^verbatim>\<open>https://\<close> and goes on; its settings are those of the mock runtime of the
  package's test, which knows the private key, the RPC URL and the OpenAI key and answers
  the empty string for every other key. The database has no metrics, the model answers
  the given candidate, every metadata document is complete, and the kit's wallet is
  \<^verbatim>\<open>WALLET1\<close>.
\<close>

definition demo_isUrl :: "string \<Rightarrow> bool" where
  "demo_isUrl s = (take 8 s = ''https://'' \<and> 8 < length s)"

definition demo_getSetting :: "string \<Rightarrow> string option" where
  "demo_getSetting k =
     (if k = ''SOLANA_PRIVATE_KEY'' then Some ''PRIVATE_KEY''
      else if k = ''SOLANA_RPC_URL'' then Some ''https://api.devnet.solana.com''
      else if k = ''OPENAI_API_KEY'' then Some ''OPENAI_KEY''
      else Some [])"

definition demo_metadata :: jv where
  "demo_metadata = JObj [(''name'', JStr ''Coil''), (''description'', JStr ''A coil''),
                         (''image'', JStr ''https://example.org/coil.png'')]"

definition demo_world :: "jv \<Rightarrow> unit world" where
  "demo_world candidate =
     \<lparr>isUrl = demo_isUrl,
      zodMessage = (\<lambda>issues. ''Validation failed''),
      getSetting = demo_getSetting,
      getMetrics = (\<lambda>u. Inr JNull),
      composeContext = (\<lambda>s t. t),
      generateObjectDeprecated = (\<lambda>c. Inr candidate),
      fetchJson = (\<lambda>u. Inr demo_metadata),
      newSolanaAgentKit = (\<lambda>k r a. Inr \<lparr>wallet_address = ''WALLET1''\<rparr>),
      deployCollection = (\<lambda>k r. Inr \<lparr>collectionAddress = ''COLLECTION1'', signature = ''SIG1''\<rparr>)\<rparr>"

definition demo_message :: memory where
  "demo_message =
     \<lparr>content_text = Some ''Create an NFT collection called Test Collection'',
      content_source = None,
      userId = ''test-user''\<rparr>"

definition demo_uri :: string where
  "demo_uri = ''https://arweave.net/123abc/metadata.json''"

text \<open>The example answer of the prompt template, with a royalty of \<open>r\<close>; and the same
  answer without its \<^verbatim>\<open>creators\<close>, and with an empty list of them.\<close>

definition demo_fields :: "rat \<Rightarrow> (string \<times> jv) list" where
  "demo_fields r =
     [(''name'', JStr ''My NFT Collection''),
      (''uri'', JStr demo_uri),
      (''royaltyBasisPoints'', JNum r),
      (''creators'', JArr [JObj [(''address'', JStr ''SOLANA_ADDRESS''), (''percentage'', JNum 100)]])]"

definition demo_candidate :: "rat \<Rightarrow> jv" where
  "demo_candidate r = JObj (demo_fields r)"

definition demo_fields_no_creators :: "(string \<times> jv) list" where
  "demo_fields_no_creators =
     [(''name'', JStr ''My NFT Collection''),
      (''uri'', JStr demo_uri),
      (''royaltyBasisPoints'', JNum 500)]"

definition demo_fields_empty_creators :: "(string \<times> jv) list" where
  "demo_fields_empty_creators =
     [(''name'', JStr ''My NFT Collection''),
      (''uri'', JStr demo_uri),
      (''royaltyBasisPoints'', JNum 500),
      (''creators'', JArr [])]"

text \<open>A message with neither text nor source.\<close>

definition empty_message :: memory where
  "empty_message = \<lparr>content_text = None, content_source = None, userId = ''test-user''\<rparr>"

section \<open>Properties\<close>

subsection \<open>Traces\<close>

lemma deploys_append: "deploys (xs @ ys) = deploys xs @ deploys ys"
  by (induction xs rule: deploys.induct) simp_all

lemma model_calls_append: "model_calls (xs @ ys) = model_calls xs + model_calls ys"
  by (induction xs rule: model_calls.induct) simp_all

lemma fetches_append: "fetches (xs @ ys) = fetches xs @ fetches ys"
  by (induction xs rule: fetches.induct) simp_all

lemma call_back_reads:
  "deploys (call_back cb r) = []" "model_calls (call_back cb r) = 0" "fetches (call_back cb r) = []"
  by (simp_all add: call_back_def)

subsection \<open>The schema\<close>

lemma both_Inr_iff: "both a b = Inr p \<longleftrightarrow> a = Inr (fst p) \<and> b = Inr (snd p)"
  by (cases a; cases b; cases p) auto

lemma both_Inl_right: "b = Inl f \<Longrightarrow> \<exists>e. both a b = Inl (e @ f)"
  by (cases a) auto

lemma both_Inl_left: "a = Inl e \<Longrightarrow> \<exists>f. both a b = Inl (e @ f)"
  by (cases b) auto

lemma collectionSchema_parse_Inr:
  "collectionSchema_parse valid params = Inr vp \<longleftrightarrow>
     (\<exists>kvs. params = JObj kvs \<and>
        parse_name (property kvs ''name'') = Inr (name vp) \<and>
        parse_uri valid (property kvs ''uri'') = Inr (uri vp) \<and>
        parse_royaltyBasisPoints (property kvs ''royaltyBasisPoints'') = Inr (royaltyBasisPoints vp) \<and>
        parse_creators (property kvs ''creators'') = Inr (creators vp))"
  by (cases params; cases vp)
     (auto simp: collectionSchema_parse_def both_Inr_iff split: sum.splits)

lemma parse_uri_Inr: "parse_uri valid v = Inr u \<longleftrightarrow> v = JStr u \<and> valid u"
  by (cases v) (auto simp: parse_uri_def)

lemma parse_name_Inr: "parse_name v = Inr n \<longleftrightarrow> v = JStr n \<and> n \<noteq> []"
  by (cases v) (auto simp: parse_name_def)

lemma parse_royaltyBasisPoints_Inr:
  "parse_royaltyBasisPoints v = Inr ro \<longleftrightarrow>
     (v = JUndefined \<and> ro = None) \<or> (\<exists>r. v = JNum r \<and> ro = Some r \<and> 0 \<le> r \<and> r \<le> 10000)"
  by (cases v) (auto simp: parse_royaltyBasisPoints_def)


subsection \<open>The blocks of the handler\<close>

lemma try_block_reached:
  assumes "truthy_str (content_text message) \<or> truthy_str (content_source message)"
    and "getMetrics w (userId message) = Inr m"
    and "generateObjectDeprecated w (composeContext w state collectionTemplate) = Inr params"
  shows "try_block w message state cb =
    (case collectionSchema_parse (isUrl w) params of
       Inl issues \<Rightarrow>
         ([EvGetMetrics (userId message), EvModel (composeContext w state collectionTemplate)],
          Inl (Thrown (Some (zodMessage w issues))))
     | Inr vp \<Rightarrow>
         ([EvGetMetrics (userId message), EvModel (composeContext w state collectionTemplate)]
            @ fst (metadata_block w vp) @ fst (deploy_block w cb (snd (metadata_block w vp))),
          snd (deploy_block w cb (snd (metadata_block w vp)))))"
  using assms by (auto simp: try_block_def Let_def split: sum.splits prod.splits)

lemma deploy_block_kit:
  assumes "newSolanaAgentKit w (getSetting w ''SOLANA_PRIVATE_KEY'') (getSetting w ''SOLANA_RPC_URL'')
             (getSetting w ''OPENAI_API_KEY'') = Inr k"
  shows "deploy_block w cb vp =
     (case deployCollection w k (deploy_request k vp) of
        Inl e \<Rightarrow> ([EvDeploy (deploy_request k vp)], Inl e)
      | Inr r \<Rightarrow> (EvDeploy (deploy_request k vp) # call_back cb (success_reply vp r), Inr True))"
  using assms by (simp add: deploy_block_def Let_def)

lemma metadata_block_reads:
  "deploys (fst (metadata_block w vp)) = []"
  "model_calls (fst (metadata_block w vp)) = 0"
  "replies (fst (metadata_block w vp)) = []"
  by (simp_all add: metadata_block_def)

lemma metadata_block_fallback:
  "\<not> validateMetadataUri w (uri vp) \<Longrightarrow> snd (metadata_block w vp) = vp\<lparr>uri := default_uri w\<rparr>"
  by (simp add: metadata_block_def)

lemma metadata_block_valid:
  "uri vp \<noteq> [] \<Longrightarrow> validateMetadataUri w (uri vp) \<Longrightarrow> metadata_block w vp = ([EvFetch (uri vp)], vp)"
  by (simp add: metadata_block_def)

lemma metadata_block_keeps:
  "name (snd (metadata_block w vp)) = name vp"
  "royaltyBasisPoints (snd (metadata_block w vp)) = royaltyBasisPoints vp"
  "creators (snd (metadata_block w vp)) = creators vp"
  by (simp_all add: metadata_block_def)

text \<open>Once the candidate has passed the schema and the kit is constructed, the SDK is
  called once, with the request built from the parameters the pre-check left.\<close>

lemma handler_deploys:
  assumes "truthy_str (content_text message) \<or> truthy_str (content_source message)"
    and "getMetrics w (userId message) = Inr m"
    and "generateObjectDeprecated w (composeContext w state collectionTemplate) = Inr params"
    and "collectionSchema_parse (isUrl w) params = Inr vp"
    and "newSolanaAgentKit w (getSetting w ''SOLANA_PRIVATE_KEY'') (getSetting w ''SOLANA_RPC_URL'')
             (getSetting w ''OPENAI_API_KEY'') = Inr k"
  shows "deploys (trace (handler w message state cb)) = [deploy_request k (snd (metadata_block w vp))]"
proof -
  let ?vp = "snd (metadata_block w vp)"
  have tb: "try_block w message state cb =
      ([EvGetMetrics (userId message), EvModel (composeContext w state collectionTemplate)]
         @ fst (metadata_block w vp) @ fst (deploy_block w cb ?vp),
       snd (deploy_block w cb ?vp))"
    using try_block_reached [OF assms(1,2,3)] assms(4) by simp
  show ?thesis
  proof (cases "deployCollection w k (deploy_request k ?vp)")
    case (Inl e)
    then have "deploy_block w cb ?vp = ([EvDeploy (deploy_request k ?vp)], Inl e)"
      using deploy_block_kit [OF assms(5)] by simp
    then show ?thesis
      by (simp add: handler_def tb deploys_append metadata_block_reads split: option.splits)
  next
    case (Inr r)
    then have "deploy_block w cb ?vp =
        (EvDeploy (deploy_request k ?vp) # call_back cb (success_reply ?vp r), Inr True)"
      using deploy_block_kit [OF assms(5)] by simp
    then show ?thesis
      by (simp add: handler_def tb deploys_append metadata_block_reads call_back_reads)
  qed
qed

lemma handler_succeeds:
  assumes "truthy_str (content_text message) \<or> truthy_str (content_source message)"
    and "getMetrics w (userId message) = Inr m"
    and "generateObjectDeprecated w (composeContext w state collectionTemplate) = Inr params"
    and "collectionSchema_parse (isUrl w) params = Inr vp"
    and "newSolanaAgentKit w (getSetting w ''SOLANA_PRIVATE_KEY'') (getSetting w ''SOLANA_RPC_URL'')
             (getSetting w ''OPENAI_API_KEY'') = Inr k"
    and "deployCollection w k (deploy_request k (snd (metadata_block w vp))) = Inr r"
  shows "outcome (handler w message state cb) = Returned True"
proof -
  let ?vp = "snd (metadata_block w vp)"
  have tb: "try_block w message state cb =
      ([EvGetMetrics (userId message), EvModel (composeContext w state collectionTemplate)]
         @ fst (metadata_block w vp) @ fst (deploy_block w cb ?vp),
       snd (deploy_block w cb ?vp))"
    using try_block_reached [OF assms(1,2,3)] assms(4) by simp
  have "deploy_block w cb ?vp =
        (EvDeploy (deploy_request k ?vp) # call_back cb (success_reply ?vp r), Inr True)"
    using deploy_block_kit [OF assms(5)] assms(6) by simp
  then show ?thesis
    by (simp add: handler_def tb)
qed

text \<open>The seven ways through the \<^verbatim>\<open>try\<close> block.\<close>

lemma try_block_cases [case_names empty no_metrics no_answer invalid no_kit not_deployed deployed]:
  obtains
    "try_block w message state cb = (call_back cb empty_reply, Inr False)"
  | e where
      "try_block w message state cb = ([EvGetMetrics (userId message)], Inl e)"
      "getMetrics w (userId message) = Inl e"
  | e where
      "try_block w message state cb =
         ([EvGetMetrics (userId message), EvModel (composeContext w state collectionTemplate)], Inl e)"
      "generateObjectDeprecated w (composeContext w state collectionTemplate) = Inl e"
  | issues where
      "try_block w message state cb =
         ([EvGetMetrics (userId message), EvModel (composeContext w state collectionTemplate)],
          Inl (Thrown (Some (zodMessage w issues))))"
  | params vp e where
      "collectionSchema_parse (isUrl w) params = Inr vp"
      "try_block w message state cb =
         ([EvGetMetrics (userId message), EvModel (composeContext w state collectionTemplate)]
            @ fst (metadata_block w vp), Inl e)"
      "newSolanaAgentKit w (getSetting w ''SOLANA_PRIVATE_KEY'') (getSetting w ''SOLANA_RPC_URL'')
             (getSetting w ''OPENAI_API_KEY'') = Inl e"
  | params vp k e where
      "collectionSchema_parse (isUrl w) params = Inr vp"
      "try_block w message state cb =
         ([EvGetMetrics (userId message), EvModel (composeContext w state collectionTemplate)]
            @ fst (metadata_block w vp) @ [EvDeploy (deploy_request k (snd (metadata_block w vp)))],
          Inl e)"
      "deployCollection w k (deploy_request k (snd (metadata_block w vp))) = Inl e"
  | params vp k r where
      "collectionSchema_parse (isUrl w) params = Inr vp"
      "try_block w message state cb =
         ([EvGetMetrics (userId message), EvModel (composeContext w state collectionTemplate)]
            @ fst (metadata_block w vp)
            @ EvDeploy (deploy_request k (snd (metadata_block w vp)))
              # call_back cb (success_reply (snd (metadata_block w vp)) r),
          Inr True)"
proof (cases "truthy_str (content_text message) \<or> truthy_str (content_source message)")
  case False
  then have "try_block w message state cb = (call_back cb empty_reply, Inr False)"
    by (simp add: try_block_def)
  then show ?thesis by (rule that(1))
next
  case nonempty: True
  show ?thesis
  proof (cases "getMetrics w (userId message)")
    case (Inl e)
    with nonempty have "try_block w message state cb = ([EvGetMetrics (userId message)], Inl e)"
      by (auto simp: try_block_def)
    then show ?thesis using Inl by (rule that(2))
  next
    case metrics: (Inr m)
    show ?thesis
    proof (cases "generateObjectDeprecated w (composeContext w state collectionTemplate)")
      case (Inl e)
      with nonempty metrics have "try_block w message state cb =
         ([EvGetMetrics (userId message), EvModel (composeContext w state collectionTemplate)], Inl e)"
        by (auto simp: try_block_def Let_def)
      then show ?thesis using Inl by (rule that(3))
    next
      case answer: (Inr params)
      note reached = try_block_reached [OF nonempty metrics answer, of cb]
      show ?thesis
      proof (cases "collectionSchema_parse (isUrl w) params")
        case (Inl issues)
        with reached show ?thesis by (auto intro: that(4))
      next
        case valid: (Inr vp)
        let ?vp = "snd (metadata_block w vp)"
        show ?thesis
        proof (cases "newSolanaAgentKit w (getSetting w ''SOLANA_PRIVATE_KEY'')
            (getSetting w ''SOLANA_RPC_URL'') (getSetting w ''OPENAI_API_KEY'')")
          case (Inl e)
          then have "deploy_block w cb ?vp = ([], Inl e)"
            by (simp add: deploy_block_def)
          with reached valid have "try_block w message state cb =
             ([EvGetMetrics (userId message), EvModel (composeContext w state collectionTemplate)]
                @ fst (metadata_block w vp), Inl e)"
            by simp
          with valid show ?thesis using Inl by (rule that(5))
        next
          case kit: (Inr k)
          note block = deploy_block_kit [OF kit, of cb ?vp]
          show ?thesis
          proof (cases "deployCollection w k (deploy_request k ?vp)")
            case (Inl e)
            with reached valid block have "try_block w message state cb =
               ([EvGetMetrics (userId message), EvModel (composeContext w state collectionTemplate)]
                  @ fst (metadata_block w vp) @ [EvDeploy (deploy_request k ?vp)], Inl e)"
              by simp
            with valid show ?thesis using Inl by (rule that(6))
          next
            case (Inr r)
            with reached valid block have "try_block w message state cb =
               ([EvGetMetrics (userId message), EvModel (composeContext w state collectionTemplate)]
                  @ fst (metadata_block w vp)
                  @ EvDeploy (deploy_request k ?vp) # call_back cb (success_reply ?vp r), Inr True)"
              by simp
            with valid show ?thesis by (rule that(7))
          qed
        qed
      qed
    qed
  qed
qed

text \<open>The \<^verbatim>\<open>catch\<close> block, on a thrown value that has properties.\<close>

lemma handler_caught:
  "try_block w message state cb = (tr, Inl (Thrown m)) \<Longrightarrow>
   handler w message state cb =
     \<lparr>outcome = Returned False, trace = tr @ call_back cb (failure_reply m)\<rparr>"
  by (simp add: handler_def call_back_def)

lemma handler_returned:
  "try_block w message state cb = (tr, Inr b) \<Longrightarrow>
   handler w message state cb = \<lparr>outcome = Returned b, trace = tr\<rparr>"
  by (simp add: handler_def)

lemma handler_trace_thrown:
  "try_block w message state cb = (tr, Inl e) \<Longrightarrow>
   \<exists>rs. trace (handler w message state cb) = tr @ map EvCallback rs \<and> length rs \<le> 1"
proof -
  assume t: "try_block w message state cb = (tr, Inl e)"
  show ?thesis
  proof (cases "cb \<and> e \<noteq> Nullish")
    case True
    then obtain m where "e = Thrown m" by (cases e) auto
    with t True have "trace (handler w message state cb) = tr @ map EvCallback [failure_reply m]"
      by (simp add: handler_def)
    then show ?thesis by (intro exI [of _ "[failure_reply m]"]) simp
  next
    case False
    with t have "trace (handler w message state cb) = tr @ map EvCallback []"
      by (cases e) (auto simp: handler_def)
    then show ?thesis by (intro exI [of _ "[]"]) simp
  qed
qed


lemma callbacks_read:
  "deploys (map EvCallback rs) = []" "model_calls (map EvCallback rs) = 0"
  "fetches (map EvCallback rs) = []" "replies (map EvCallback rs) = rs"
  by (induction rs) simp_all

lemma callbacks_only:
  "\<exists>rs. [] = map EvCallback rs" "\<exists>rs. [EvCallback r] = map EvCallback rs"
  by (rule exI [of _ "[]"], simp, rule exI [of _ "[r]"], simp)

lemma call_back_map: "call_back cb r = map EvCallback (if cb then [r] else [])"
  by (simp add: call_back_def)

lemma metadata_block_events:
  "fst (metadata_block w vp) = (if uri vp = [] then [] else [EvFetch (uri vp)])"
  by (simp add: metadata_block_def)

lemma validated_uri_nonempty:
  "collectionSchema_parse (isUrl w) params = Inr vp \<Longrightarrow> \<not> isUrl w [] \<Longrightarrow> uri vp \<noteq> []"
  by (auto simp: collectionSchema_parse_Inr parse_uri_Inr)

text \<open>The \<^verbatim>\<open>catch\<close> block calls nothing but the callback.\<close>

lemma handler_reads:
  assumes "try_block w message state cb = (tr, x)"
  shows "model_calls (trace (handler w message state cb)) = model_calls tr"
    and "fetches (trace (handler w message state cb)) = fetches tr"
    and "deploys (trace (handler w message state cb)) = deploys tr"
proof -
  have "\<exists>rs. trace (handler w message state cb) = tr @ map EvCallback rs"
  proof (cases x)
    case (Inl e)
    with assms handler_trace_thrown [of w message state cb tr e] show ?thesis by auto
  next
    case (Inr b)
    with assms have "trace (handler w message state cb) = tr @ map EvCallback []"
      by (simp add: handler_returned)
    then show ?thesis by (rule exI)
  qed
  then obtain rs where "trace (handler w message state cb) = tr @ map EvCallback rs" ..
  then show "model_calls (trace (handler w message state cb)) = model_calls tr"
    and "fetches (trace (handler w message state cb)) = fetches tr"
    and "deploys (trace (handler w message state cb)) = deploys tr"
    by (simp_all add: model_calls_append fetches_append deploys_append callbacks_read)
qed

lemma handler_returns_unless_nullish:
  assumes "getMetrics w (userId message) \<noteq> Inl Nullish"
    and "generateObjectDeprecated w (composeContext w state collectionTemplate) \<noteq> Inl Nullish"
    and "newSolanaAgentKit w (getSetting w ''SOLANA_PRIVATE_KEY'') (getSetting w ''SOLANA_RPC_URL'')
             (getSetting w ''OPENAI_API_KEY'') \<noteq> Inl Nullish"
    and "\<forall>k r. deployCollection w k r \<noteq> Inl Nullish"
  shows "\<exists>b. outcome (handler w message state cb) = Returned b"
proof -
  have caught: "\<exists>b. outcome (handler w message state cb) = Returned b"
    if "try_block w message state cb = (tr, Inl e)" and "e \<noteq> Nullish" for tr e
  proof -
    from that(2) obtain m where "e = Thrown m" by (cases e) auto
    with that(1) handler_caught [of w message state cb tr m] show ?thesis by auto
  qed
  show ?thesis
  proof (cases rule: try_block_cases [of w message state cb])
    case empty
    from handler_returned [OF this] show ?thesis by auto
  next
    case (no_metrics e)
    with assms(1) caught show ?thesis by metis
  next
    case (no_answer e)
    with assms(2) caught show ?thesis by metis
  next
    case (invalid issues)
    from handler_caught [OF this] show ?thesis by auto
  next
    case (no_kit params vp e)
    with assms(3) caught show ?thesis by metis
  next
    case (not_deployed params vp k e)
    with assms(4) caught show ?thesis by metis
  next
    case (deployed params vp k r)
    from handler_returned [OF this(2)] show ?thesis by auto
  qed
qed

lemma handler_returns_without_callback:
  "\<exists>b. outcome (handler w message state False) = Returned b"
  by (auto simp: handler_def split: prod.splits sum.splits)

subsection \<open>The concrete world\<close>

lemma demo_reaches:
  "truthy_str (content_text demo_message) \<or> truthy_str (content_source demo_message)"
  "getMetrics (demo_world c) (userId demo_message) = Inr JNull"
  "generateObjectDeprecated (demo_world c) (composeContext (demo_world c) () collectionTemplate) = Inr c"
  "newSolanaAgentKit (demo_world c) (getSetting (demo_world c) ''SOLANA_PRIVATE_KEY'')
     (getSetting (demo_world c) ''SOLANA_RPC_URL'') (getSetting (demo_world c) ''OPENAI_API_KEY'')
     = Inr \<lparr>wallet_address = ''WALLET1''\<rparr>"
  by (simp_all add: demo_world_def demo_message_def)

lemma demo_isUrl_sel: "isUrl (demo_world c) = demo_isUrl"
  by (simp add: demo_world_def)

lemma demo_parse:
  "collectionSchema_parse demo_isUrl (demo_candidate r) =
     (if r < 0 then Inl [Issue too_small [Key ''royaltyBasisPoints'']]
      else if 10000 < r then Inl [Issue too_big [Key ''royaltyBasisPoints'']]
      else Inr \<lparr>name = ''My NFT Collection'', uri = demo_uri, royaltyBasisPoints = Some r,
                creators = Some [\<lparr>address = ''SOLANA_ADDRESS'', percentage = 100\<rparr>]\<rparr>)"
  by (simp add: collectionSchema_parse_def demo_candidate_def demo_fields_def property_def
      parse_name_def parse_uri_def parse_royaltyBasisPoints_def parse_creators_def
      parse_creator_def parse_address_def parse_percentage_def demo_isUrl_def demo_uri_def)

lemma demo_validate: "validateMetadataUri (demo_world c) u"
  by (simp add: validateMetadataUri_def demo_world_def demo_metadata_def property_def)

lemma demo_handler:
  "collectionSchema_parse demo_isUrl c = Inr vp \<Longrightarrow>
   handler (demo_world c) demo_message () True =
     \<lparr>outcome = Returned True,
      trace = [EvGetMetrics ''test-user'', EvModel collectionTemplate, EvFetch (uri vp),
               EvDeploy (deploy_request \<lparr>wallet_address = ''WALLET1''\<rparr> vp),
               EvCallback (success_reply vp \<lparr>collectionAddress = ''COLLECTION1'', signature = ''SIG1''\<rparr>)]\<rparr>"
proof -
  assume p: "collectionSchema_parse demo_isUrl c = Inr vp"
  then have "demo_isUrl (uri vp)"
    by (auto simp: collectionSchema_parse_Inr parse_uri_Inr)
  then have u: "uri vp \<noteq> []" by (auto simp: demo_isUrl_def)
  have i: "isUrl (demo_world c) = demo_isUrl" by (simp add: demo_world_def)
  have mb: "metadata_block (demo_world c) vp = ([EvFetch (uri vp)], vp)"
    using u demo_validate by (rule metadata_block_valid)
  have db: "deploy_block (demo_world c) True vp =
     ([EvDeploy (deploy_request \<lparr>wallet_address = ''WALLET1''\<rparr> vp),
       EvCallback (success_reply vp \<lparr>collectionAddress = ''COLLECTION1'', signature = ''SIG1''\<rparr>)], Inr True)"
    by (simp add: deploy_block_kit [OF demo_reaches(4)]) (simp add: demo_world_def call_back_def)
  show ?thesis
    using try_block_reached [OF demo_reaches(1,2,3), of c True] p
    by (simp add: handler_def i mb db) (simp add: demo_world_def demo_message_def)
qed

lemma half_not_int: "(5/2::rat) \<notin> \<int>"
proof
  assume "(5/2::rat) \<in> \<int>"
  then obtain z :: int where "(5/2::rat) = of_int z" by (rule Ints_cases)
  then have "(of_int 5 :: rat) = of_int (2 * z)" by simp
  then have "5 = 2 * z" by (simp only: of_int_eq_iff)
  then show False by presburger
qed

lemma demo_parse_no_creators:
  "collectionSchema_parse demo_isUrl (JObj demo_fields_no_creators) =
     Inr \<lparr>name = ''My NFT Collection'', uri = demo_uri, royaltyBasisPoints = Some 500,
          creators = None\<rparr>"
  by (simp add: collectionSchema_parse_def demo_fields_no_creators_def property_def
      parse_name_def parse_uri_def parse_royaltyBasisPoints_def parse_creators_def
      demo_isUrl_def demo_uri_def)

section \<open>The claims\<close>

text \<open>
  In what follows a candidate \<^emph>\<open>reaches validation\<close> when the message passes the guard,
  the database lookup returns and the model returns the candidate; it \<^emph>\<open>reaches the SDK\<close>
  when, moreover, it passes the schema and the kit is constructed.
\<close>

subsection \<open>C1: a valid candidate is forwarded unchanged\<close>

text \<open>
  What holds: a candidate that passes the schema, gives a royalty other than 0 and a list
  of creators, and whose metadata document passes the pre-check, is the request.
\<close>

lemma valid_candidate_forwarded:
  assumes "truthy_str (content_text message) \<or> truthy_str (content_source message)"
    and "getMetrics w (userId message) = Inr m"
    and "generateObjectDeprecated w (composeContext w state collectionTemplate) = Inr params"
    and "collectionSchema_parse (isUrl w) params = Inr vp"
    and "royaltyBasisPoints vp = Some r" and "r \<noteq> 0"
    and "creators vp = Some cs"
    and "uri vp \<noteq> []" and "validateMetadataUri w (uri vp)"
    and "newSolanaAgentKit w (getSetting w ''SOLANA_PRIVATE_KEY'') (getSetting w ''SOLANA_RPC_URL'')
             (getSetting w ''OPENAI_API_KEY'') = Inr k"
  shows "deploys (trace (handler w message state has_callback)) =
           [\<lparr>req_name = name vp, req_uri = uri vp, req_royaltyBasisPoints = r, req_creators = cs\<rparr>]"
  using handler_deploys [OF assms(1,2,3,4,10), of has_callback] assms(5,6,7)
  by (simp add: metadata_block_valid [OF assms(8,9)] deploy_request_def)

text \<open>
  Claim C1: for every fully specified valid input the request handed to the SDK is the
  candidate unchanged, a royalty of 0 included. The code forwards
  \<^verbatim>\<open>validatedParams.royaltyBasisPoints || 500\<close>, and 0 is falsy: the candidate below
  passes the schema with a royalty of 0, its metadata document passes the pre-check, and
  the request that reaches the SDK carries a royalty of 500.
\<close>

theorem zero_royalty_forwarded_as_500:
  "collectionSchema_parse demo_isUrl (demo_candidate 0) =
     Inr \<lparr>name = ''My NFT Collection'', uri = demo_uri, royaltyBasisPoints = Some 0,
          creators = Some [\<lparr>address = ''SOLANA_ADDRESS'', percentage = 100\<rparr>]\<rparr> \<and>
   validateMetadataUri (demo_world (demo_candidate 0)) demo_uri \<and>
   deploys (trace (handler (demo_world (demo_candidate 0)) demo_message () True)) =
     [\<lparr>req_name = ''My NFT Collection'', req_uri = demo_uri, req_royaltyBasisPoints = 500,
       req_creators = [\<lparr>address = ''SOLANA_ADDRESS'', percentage = 100\<rparr>]\<rparr>]"
  using demo_handler [of "demo_candidate 0"]
  by (simp add: demo_parse demo_validate deploy_request_def)

subsection \<open>C2: the default creator\<close>

text \<open>
  Claim C2, as stated: when the validated candidate omits \<^verbatim>\<open>creators\<close>, the single
  creator of the request has the address given by the setting \<^verbatim>\<open>SOLANA_PUBLIC_KEY\<close>.
  It fails in the world of the package's test, where that setting is the empty string
  and the kit's wallet is \<^verbatim>\<open>WALLET1\<close>: the handler reads the setting only into
  \<^verbatim>\<open>userMetrics\<close>, which it never uses.
\<close>

theorem default_creator_is_not_the_public_key_setting:
  "collectionSchema_parse demo_isUrl (JObj demo_fields_no_creators) =
     Inr \<lparr>name = ''My NFT Collection'', uri = demo_uri, royaltyBasisPoints = Some 500,
          creators = None\<rparr> \<and>
   map req_creators
     (deploys (trace (handler (demo_world (JObj demo_fields_no_creators)) demo_message () True))) =
     [[\<lparr>address = ''WALLET1'', percentage = 100\<rparr>]] \<and>
   getSetting (demo_world (JObj demo_fields_no_creators)) ''SOLANA_PUBLIC_KEY'' = Some []"
  using demo_handler [of "JObj demo_fields_no_creators"]
  by (simp add: demo_parse_no_creators deploy_request_def) (simp add: demo_world_def demo_getSetting_def)

text \<open>
  Claim C2, amended: when the validated candidate omits \<^verbatim>\<open>creators\<close> and reaches the
  SDK, the request has exactly one creator, with percentage 100 and the address
  \<^verbatim>\<open>wallet_address.toString()\<close> of the kit constructed from the settings
  \<^verbatim>\<open>SOLANA_PRIVATE_KEY\<close>, \<^verbatim>\<open>SOLANA_RPC_URL\<close> and \<^verbatim>\<open>OPENAI_API_KEY\<close>.
\<close>

theorem default_creator_is_kit_wallet:
  assumes "truthy_str (content_text message) \<or> truthy_str (content_source message)"
    and "getMetrics w (userId message) = Inr m"
    and "generateObjectDeprecated w (composeContext w state collectionTemplate) = Inr params"
    and "collectionSchema_parse (isUrl w) params = Inr vp"
    and "creators vp = None"
    and "newSolanaAgentKit w (getSetting w ''SOLANA_PRIVATE_KEY'') (getSetting w ''SOLANA_RPC_URL'')
             (getSetting w ''OPENAI_API_KEY'') = Inr k"
  shows "map req_creators (deploys (trace (handler w message state has_callback))) =
           [[\<lparr>address = wallet_address k, percentage = 100\<rparr>]]"
  using handler_deploys [OF assms(1,2,3,4,6), of has_callback] assms(5)
  by (simp add: deploy_request_def metadata_block_keeps)

text \<open>Claim C2, the amended statement at the test's world, without a callback.\<close>

theorem default_creator_is_kit_wallet_witness:
  "(truthy_str (content_text demo_message) \<or> truthy_str (content_source demo_message)) \<and>
   creators \<lparr>name = ''My NFT Collection'', uri = demo_uri, royaltyBasisPoints = Some 500,
          creators = None\<rparr> = None \<and>
   map req_creators
     (deploys (trace (handler (demo_world (JObj demo_fields_no_creators)) demo_message () False))) =
     [[\<lparr>address = wallet_address \<lparr>wallet_address = ''WALLET1''\<rparr>, percentage = 100\<rparr>]]"
  using default_creator_is_kit_wallet [OF demo_reaches(1,2,3) _ _ demo_reaches(4),
      of "JObj demo_fields_no_creators"
         "\<lparr>name = ''My NFT Collection'', uri = demo_uri, royaltyBasisPoints = Some 500, creators = None\<rparr>"
         False]
  by (simp add: demo_parse_no_creators demo_reaches(1) demo_isUrl_sel)

subsection \<open>C3: the guard on empty messages\<close>

text \<open>
  Claim C3: for a message whose content has neither text nor source (the guard tests
  falsiness, so an empty string counts as missing), the handler returns \<^verbatim>\<open>false\<close>, the
  callback, when one was passed, receives the empty-input reply with its text and its
  error payload, and nothing else is called: no model, no fetch, no SDK.
\<close>

theorem empty_message_rejected:
  assumes "\<not> truthy_str (content_text message)" and "\<not> truthy_str (content_source message)"
  shows "handler w message state has_callback =
           \<lparr>outcome = Returned False,
            trace = (if has_callback
                     then [EvCallback \<lparr>reply_text = ''Cannot process empty message content'',
                                       reply_content = Error (Some ''Empty message content'')\<rparr>]
                     else [])\<rparr> \<and>
         model_calls (trace (handler w message state has_callback)) = 0 \<and>
         fetches (trace (handler w message state has_callback)) = [] \<and>
         deploys (trace (handler w message state has_callback)) = []"
  using assms by (simp add: handler_def try_block_def call_back_def empty_reply_def)

text \<open>Claim C3, at the message with no text and no source.\<close>

theorem empty_message_rejected_witness:
  "\<not> truthy_str (content_text empty_message) \<and> \<not> truthy_str (content_source empty_message) \<and>
   handler (demo_world (demo_candidate 500)) empty_message () True =
     \<lparr>outcome = Returned False,
      trace = [EvCallback \<lparr>reply_text = ''Cannot process empty message content'',
                             reply_content = Error (Some ''Empty message content'')\<rparr>]\<rparr>"
  using empty_message_rejected [of empty_message "demo_world (demo_candidate 500)" "()" True]
  by (simp add: empty_message_def)

subsection \<open>C4: a royalty out of range\<close>

lemma royalty_out_of_range_issue:
  assumes "property kvs ''royaltyBasisPoints'' = JNum r" and "r < 0 \<or> 10000 < r"
  shows "\<exists>issues. collectionSchema_parse valid (JObj kvs) = Inl issues \<and>
           Issue (if r < 0 then too_small else too_big) [Key ''royaltyBasisPoints''] \<in> set issues"
proof -
  let ?i = "Issue (if r < 0 then too_small else too_big) [Key ''royaltyBasisPoints'']"
  have "parse_royaltyBasisPoints (property kvs ''royaltyBasisPoints'') = Inl [?i]"
    using assms by (auto simp: parse_royaltyBasisPoints_def)
  then obtain f where "both (parse_royaltyBasisPoints (property kvs ''royaltyBasisPoints''))
                         (parse_creators (property kvs ''creators'')) = Inl ([?i] @ f)"
    using both_Inl_left by blast
  then obtain e where "both (both (parse_name (property kvs ''name''))
                         (parse_uri valid (property kvs ''uri'')))
                   (both (parse_royaltyBasisPoints (property kvs ''royaltyBasisPoints''))
                         (parse_creators (property kvs ''creators''))) = Inl (e @ ([?i] @ f))"
    using both_Inl_right by blast
  then show ?thesis
    by (simp add: collectionSchema_parse_def)
qed

text \<open>
  Claim C4: a candidate object whose \<^verbatim>\<open>royaltyBasisPoints\<close> is a number below 0 or
  above 10000 fails the schema, with an issue at that key; when it reaches validation the
  handler returns \<^verbatim>\<open>false\<close>, the callback, when one was passed, receives the
  \<^verbatim>\<open>ZodError\<close>'s message as text and as error payload, and the SDK is not called.
\<close>

theorem royalty_out_of_range_rejected:
  assumes "truthy_str (content_text message) \<or> truthy_str (content_source message)"
    and "getMetrics w (userId message) = Inr m"
    and "generateObjectDeprecated w (composeContext w state collectionTemplate) = Inr (JObj kvs)"
    and "property kvs ''royaltyBasisPoints'' = JNum r"
    and "r < 0 \<or> 10000 < r"
  shows "\<exists>issues. collectionSchema_parse (isUrl w) (JObj kvs) = Inl issues \<and>
           Issue (if r < 0 then too_small else too_big) [Key ''royaltyBasisPoints''] \<in> set issues \<and>
           handler w message state has_callback =
             \<lparr>outcome = Returned False,
              trace = [EvGetMetrics (userId message),
                       EvModel (composeContext w state collectionTemplate)] @
                      (if has_callback
                       then [EvCallback
                               \<lparr>reply_text = ''Failed to deploy collection: '' @ zodMessage w issues,
                                reply_content = Error (Some (zodMessage w issues))\<rparr>]
                       else [])\<rparr> \<and>
           deploys (trace (handler w message state has_callback)) = []"
proof -
  obtain issues where i: "collectionSchema_parse (isUrl w) (JObj kvs) = Inl issues"
      "Issue (if r < 0 then too_small else too_big) [Key ''royaltyBasisPoints''] \<in> set issues"
    using royalty_out_of_range_issue [OF assms(4,5)] by blast
  have "try_block w message state has_callback =
      ([EvGetMetrics (userId message), EvModel (composeContext w state collectionTemplate)],
       Inl (Thrown (Some (zodMessage w issues))))"
    using try_block_reached [OF assms(1,2,3)] i(1) by simp
  then have "handler w message state has_callback =
             \<lparr>outcome = Returned False,
              trace = [EvGetMetrics (userId message),
                       EvModel (composeContext w state collectionTemplate)] @
                      (if has_callback
                       then [EvCallback
                               \<lparr>reply_text = ''Failed to deploy collection: '' @ zodMessage w issues,
                                reply_content = Error (Some (zodMessage w issues))\<rparr>]
                       else [])\<rparr>"
    by (simp add: handler_def failure_reply_def)
  then show ?thesis using i by auto
qed

text \<open>Claim C4, at the template's example answer with a royalty of 10001.\<close>

theorem royalty_out_of_range_rejected_witness:
  "(truthy_str (content_text demo_message) \<or> truthy_str (content_source demo_message)) \<and>
   getMetrics (demo_world (demo_candidate 10001)) (userId demo_message) = Inr JNull \<and>
   property (demo_fields 10001) ''royaltyBasisPoints'' = JNum 10001 \<and>
   ((10001::rat) < 0 \<or> (10000::rat) < 10001) \<and>
   handler (demo_world (demo_candidate 10001)) demo_message () True =
     \<lparr>outcome = Returned False,
      trace = [EvGetMetrics ''test-user'', EvModel collectionTemplate,
               EvCallback \<lparr>reply_text = ''Failed to deploy collection: Validation failed'',
                             reply_content = Error (Some ''Validation failed'')\<rparr>]\<rparr>"
  using royalty_out_of_range_rejected
    [of demo_message "demo_world (demo_candidate 10001)" JNull "()" "demo_fields 10001" 10001 True]
  by (auto simp: demo_world_def demo_message_def demo_candidate_def demo_fields_def property_def)

subsection \<open>C5: the metadata pre-check falls back\<close>

lemma validateMetadataUri_fails:
  assumes "fetchJson w u = Inl e \<or>
           (fetchJson w u = Inr metadata \<and>
             (member metadata ''name'' \<in> {None, Some JUndefined} \<or>
              member metadata ''description'' \<in> {None, Some JUndefined} \<or>
              member metadata ''image'' \<in> {None, Some JUndefined}))"
  shows "\<not> validateMetadataUri w u"
  using assms by (auto simp: validateMetadataUri_def split: option.splits)

text \<open>
  Claim C5: let a candidate pass the schema, so that its \<^verbatim>\<open>uri\<close> is a valid URL, and
  reach the SDK. If fetching the \<^verbatim>\<open>uri\<close> or reading its body as JSON throws, or if the
  document has no \<^verbatim>\<open>name\<close>, no \<^verbatim>\<open>description\<close> or no \<^verbatim>\<open>image\<close> (for a field
  \<open>k\<close>, \<open>member metadata k\<close> is \<open>None\<close> on the document \<^verbatim>\<open>null\<close> and
  \<open>Some JUndefined\<close> on any other document without the field), then the SDK is called
  once, with the candidate whose \<^verbatim>\<open>uri\<close> is replaced by the setting
  \<^verbatim>\<open>DEFAULT_NFT_METADATA_URI\<close>, or by the hardcoded URI when that setting is missing or
  empty; and when the SDK call returns, the handler returns \<^verbatim>\<open>true\<close>.
\<close>

theorem metadata_failure_falls_back:
  assumes "truthy_str (content_text message) \<or> truthy_str (content_source message)"
    and "getMetrics w (userId message) = Inr m"
    and "generateObjectDeprecated w (composeContext w state collectionTemplate) = Inr params"
    and "collectionSchema_parse (isUrl w) params = Inr vp"
    and "fetchJson w (uri vp) = Inl e \<or>
           (fetchJson w (uri vp) = Inr metadata \<and>
             (member metadata ''name'' \<in> {None, Some JUndefined} \<or>
              member metadata ''description'' \<in> {None, Some JUndefined} \<or>
              member metadata ''image'' \<in> {None, Some JUndefined}))"
    and "newSolanaAgentKit w (getSetting w ''SOLANA_PRIVATE_KEY'') (getSetting w ''SOLANA_RPC_URL'')
             (getSetting w ''OPENAI_API_KEY'') = Inr k"
  shows "isUrl w (uri vp) \<and>
         deploys (trace (handler w message state has_callback)) =
           [deploy_request k (vp\<lparr>uri := default_uri w\<rparr>)] \<and>
         req_uri (deploy_request k (vp\<lparr>uri := default_uri w\<rparr>)) =
           (case getSetting w ''DEFAULT_NFT_METADATA_URI'' of
              None \<Rightarrow> fallback_uri
            | Some s \<Rightarrow> if s = [] then fallback_uri else s) \<and>
         (\<forall>r. deployCollection w k (deploy_request k (vp\<lparr>uri := default_uri w\<rparr>)) = Inr r \<longrightarrow>
              outcome (handler w message state has_callback) = Returned True)"
proof -
  have u: "isUrl w (uri vp)"
    using assms(4) by (auto simp: collectionSchema_parse_Inr parse_uri_Inr)
  have f: "snd (metadata_block w vp) = vp\<lparr>uri := default_uri w\<rparr>"
    using validateMetadataUri_fails [OF assms(5)] by (rule metadata_block_fallback)
  have d: "deploys (trace (handler w message state has_callback)) =
           [deploy_request k (vp\<lparr>uri := default_uri w\<rparr>)]"
    using handler_deploys [OF assms(1,2,3,4,6), of has_callback] f by simp
  have s: "\<forall>r. deployCollection w k (deploy_request k (vp\<lparr>uri := default_uri w\<rparr>)) = Inr r \<longrightarrow>
              outcome (handler w message state has_callback) = Returned True"
    using handler_succeeds [OF assms(1,2,3,4,6), of _ has_callback] f by simp
  show ?thesis
    using u d s by (simp add: deploy_request_def default_uri_def)
qed

text \<open>Claim C5, at a metadata document that has a name only; no default is configured.\<close>

theorem metadata_failure_falls_back_witness:
  "(truthy_str (content_text demo_message) \<or> truthy_str (content_source demo_message)) \<and>
   fetchJson ((demo_world (demo_candidate 500))\<lparr>fetchJson := \<lambda>u. Inr (JObj [(''name'', JStr ''Coil'')])\<rparr>) demo_uri
     = Inr (JObj [(''name'', JStr ''Coil'')]) \<and>
   member (JObj [(''name'', JStr ''Coil'')]) ''description'' \<in> {None, Some JUndefined} \<and>
   deploys (trace (handler ((demo_world (demo_candidate 500))\<lparr>fetchJson := \<lambda>u. Inr (JObj [(''name'', JStr ''Coil'')])\<rparr>)
                     demo_message () True)) =
     [\<lparr>req_name = ''My NFT Collection'', req_uri = fallback_uri, req_royaltyBasisPoints = 500,
       req_creators = [\<lparr>address = ''SOLANA_ADDRESS'', percentage = 100\<rparr>]\<rparr>] \<and>
   outcome (handler ((demo_world (demo_candidate 500))\<lparr>fetchJson := \<lambda>u. Inr (JObj [(''name'', JStr ''Coil'')])\<rparr>)
                     demo_message () True) = Returned True"
  using metadata_failure_falls_back
    [of demo_message "(demo_world (demo_candidate 500))\<lparr>fetchJson := \<lambda>u. Inr (JObj [(''name'', JStr ''Coil'')])\<rparr>"
        JNull "()" "demo_candidate 500"
        "\<lparr>name = ''My NFT Collection'', uri = demo_uri, royaltyBasisPoints = Some 500,
          creators = Some [\<lparr>address = ''SOLANA_ADDRESS'', percentage = 100\<rparr>]\<rparr>"
        Nullish "JObj [(''name'', JStr ''Coil'')]" "\<lparr>wallet_address = ''WALLET1''\<rparr>" True]
    demo_parse [of 500]
  by (simp add: demo_world_def demo_message_def property_def deploy_request_def default_uri_def
      demo_getSetting_def)

subsection \<open>C6: nothing thrown leaves the handler\<close>

text \<open>
  What holds: when no external call throws \<^verbatim>\<open>null\<close> or \<^verbatim>\<open>undefined\<close>, or when no
  callback was passed, the handler returns a boolean (lemmas
  \<open>handler_returns_unless_nullish\<close> and \<open>handler_returns_without_callback\<close>); with a
  callback, a returned \<^verbatim>\<open>false\<close> comes after a reply with an error payload, and a
  returned \<^verbatim>\<open>true\<close> comes after the SDK call.
\<close>

lemma handler_failure_reported:
  assumes "outcome (handler w message state True) = Returned False"
  shows "\<exists>tr r. trace (handler w message state True) = tr @ [EvCallback r] \<and>
           (r = empty_reply \<or> (\<exists>m. r = failure_reply m))"
proof -
  have thrown: ?thesis if t: "try_block w message state True = (tr, Inl e)" for tr e
  proof (cases e)
    case Nullish
    with t assms show ?thesis by (simp add: handler_def)
  next
    case (Thrown m)
    with t handler_caught [of w message state True tr m]
    have "trace (handler w message state True) = tr @ [EvCallback (failure_reply m)]"
      by (simp add: call_back_def)
    then show ?thesis by blast
  qed
  show ?thesis
  proof (cases rule: try_block_cases [of w message state True])
    case empty
    from handler_returned [OF this]
    have "trace (handler w message state True) = [] @ [EvCallback empty_reply]"
      by (simp add: call_back_def)
    then show ?thesis by blast
  next
    case (invalid issues)
    then show ?thesis by (rule thrown)
  next
    case (deployed params vp k r)
    from handler_returned [OF this(2)] assms show ?thesis by simp
  qed (erule thrown)+
qed

lemma handler_success_deployed:
  assumes "outcome (handler w message state has_callback) = Returned True"
  shows "deploys (trace (handler w message state has_callback)) \<noteq> []"
proof -
  have thrown: False if t: "try_block w message state has_callback = (tr, Inl e)" for tr e
    using t assms by (cases e) (auto simp: handler_def split: if_splits)
  show ?thesis
  proof (cases rule: try_block_cases [of w message state has_callback])
    case empty
    from handler_returned [OF this] assms show ?thesis by simp
  next
    case (invalid issues)
    then show ?thesis using thrown by blast
  next
    case (deployed params vp k r)
    from handler_reads(3) [OF this(2)] show ?thesis by (simp add: deploys_append)
  qed (auto dest: thrown)
qed

text \<open>
  Claim C6: whatever the external calls do, no exception leaves the handler. A promise may
  reject with any value, \<^verbatim>\<open>undefined\<close> included (\<^verbatim>\<open>Promise.reject()\<close>). When the
  database lookup rejects so and a callback was passed, the \<^verbatim>\<open>catch\<close> block evaluates
  \<^verbatim>\<open>error.message\<close> on \<^verbatim>\<open>undefined\<close>, which throws a TypeError outside any
  \<^verbatim>\<open>try\<close>: the handler's promise rejects, and the callback is never called.
\<close>

theorem nullish_rejection_escapes:
  "handler ((demo_world (demo_candidate 500))\<lparr>getMetrics := \<lambda>u. Inl Nullish\<rparr>) demo_message () True =
     \<lparr>outcome = RejectedTypeError, trace = [EvGetMetrics ''test-user'']\<rparr>"
  by (simp add: handler_def try_block_def demo_world_def demo_message_def)

subsection \<open>C7: what is called before the SDK\<close>

text \<open>
  What holds of every invocation: no call is made twice; and, the empty string not being
  a URL, the calls of an invocation that calls the SDK are the database lookup, the model
  call, the fetch and the SDK call, in this order, and then calls of the callback only.
\<close>

lemma handler_calls:
  "model_calls (trace (handler w message state has_callback)) \<le> 1 \<and>
   length (fetches (trace (handler w message state has_callback))) \<le> 1 \<and>
   length (deploys (trace (handler w message state has_callback))) \<le> 1 \<and>
   (deploys (trace (handler w message state has_callback)) \<noteq> [] \<and> \<not> isUrl w [] \<longrightarrow>
      (\<exists>u req rs. trace (handler w message state has_callback) =
         [EvGetMetrics (userId message), EvModel (composeContext w state collectionTemplate),
          EvFetch u, EvDeploy req] @ map EvCallback rs))"
proof (cases rule: try_block_cases [of w message state has_callback])
  case empty
  from handler_reads [OF this] show ?thesis by (simp add: call_back_reads)
next
  case (no_metrics e)
  from handler_reads [OF this(1)] show ?thesis by simp
next
  case (no_answer e)
  from handler_reads [OF this(1)] show ?thesis by simp
next
  case (invalid issues)
  from handler_reads [OF this] show ?thesis by simp
next
  case (no_kit params vp e)
  from handler_reads [OF this(2)] show ?thesis
    by (simp add: metadata_block_events)
next
  case (not_deployed params vp k e)
  obtain rs where "trace (handler w message state has_callback) =
      ([EvGetMetrics (userId message), EvModel (composeContext w state collectionTemplate)]
         @ fst (metadata_block w vp) @ [EvDeploy (deploy_request k (snd (metadata_block w vp)))])
      @ map EvCallback rs"
    using handler_trace_thrown [OF not_deployed(2)] by blast
  moreover have "\<not> isUrl w [] \<Longrightarrow> fst (metadata_block w vp) = [EvFetch (uri vp)]"
    using validated_uri_nonempty [OF not_deployed(1)] by (simp add: metadata_block_events)
  ultimately show ?thesis
    using handler_reads [OF not_deployed(2)]
    by (auto simp: metadata_block_events deploys_append fetches_append model_calls_append)
next
  case (deployed params vp k r)
  have "trace (handler w message state has_callback) =
      [EvGetMetrics (userId message), EvModel (composeContext w state collectionTemplate)]
         @ fst (metadata_block w vp) @ EvDeploy (deploy_request k (snd (metadata_block w vp)))
         # map EvCallback (if has_callback then [success_reply (snd (metadata_block w vp)) r] else [])"
    using deployed(2) by (simp add: handler_returned call_back_map)
  moreover have "\<not> isUrl w [] \<Longrightarrow> fst (metadata_block w vp) = [EvFetch (uri vp)]"
    using validated_uri_nonempty [OF deployed(1)] by (simp add: metadata_block_events)
  ultimately show ?thesis
    using handler_reads [OF deployed(2)]
    by (auto simp: metadata_block_events deploys_append fetches_append model_calls_append
        call_back_reads callbacks_only)
qed

text \<open>
  Claim C7, as stated: an invocation makes one fetch and one model call, and no other
  outbound call before the SDK call. The handler begins with
  \<^verbatim>\<open>runtime.databaseAdapter.getMetrics(message.userId)\<close>: the invocation below, which
  deploys, has looked the user up in the database before its model call.
\<close>

theorem lookup_precedes_deploy:
  "trace (handler (demo_world (demo_candidate 500)) demo_message () True) =
     [EvGetMetrics ''test-user'',
      EvModel collectionTemplate,
      EvFetch demo_uri,
      EvDeploy \<lparr>req_name = ''My NFT Collection'', req_uri = demo_uri,
                req_royaltyBasisPoints = 500,
                req_creators = [\<lparr>address = ''SOLANA_ADDRESS'', percentage = 100\<rparr>]\<rparr>,
      EvCallback
        (success_reply
           \<lparr>name = ''My NFT Collection'', uri = demo_uri, royaltyBasisPoints = Some 500,
            creators = Some [\<lparr>address = ''SOLANA_ADDRESS'', percentage = 100\<rparr>]\<rparr>
           \<lparr>collectionAddress = ''COLLECTION1'', signature = ''SIG1''\<rparr>)]"
  using demo_handler [OF demo_parse [of 500, simplified]]
  by (simp add: deploy_request_def)

text \<open>
  Claim C7, amended: an invocation that makes the SDK call makes exactly one fetch and
  exactly one model call, with no retry, no caching and no persistence, and the one other
  outbound call before the SDK call is the database lookup, which comes first. The
  handler keeps no store of its own, so all it does outside is in its trace: that of an
  invocation that deploys is the lookup, the model call, the fetch and the SDK call, once
  each and none skipped, followed by calls of the callback only. The empty string is taken
  not to be a URL, as for the URL parser behind zod.
\<close>

theorem one_model_call_one_fetch_before_deploy:
  assumes "deploys (trace (handler w message state has_callback)) \<noteq> []"
    and "\<not> isUrl w []"
  shows "\<exists>u req rs.
           trace (handler w message state has_callback) =
             [EvGetMetrics (userId message),
              EvModel (composeContext w state collectionTemplate),
              EvFetch u, EvDeploy req] @ map EvCallback rs \<and>
           model_calls (trace (handler w message state has_callback)) = 1 \<and>
           fetches (trace (handler w message state has_callback)) = [u] \<and>
           deploys (trace (handler w message state has_callback)) = [req]"
proof -
  obtain u req rs where t: "trace (handler w message state has_callback) =
      [EvGetMetrics (userId message), EvModel (composeContext w state collectionTemplate),
       EvFetch u, EvDeploy req] @ map EvCallback rs"
    using handler_calls [of w message state has_callback] assms by blast
  have "model_calls (trace (handler w message state has_callback)) = 1"
    and "fetches (trace (handler w message state has_callback)) = [u]"
    and "deploys (trace (handler w message state has_callback)) = [req]"
    unfolding t
    by (simp_all add: model_calls_append fetches_append deploys_append callbacks_read)
  with t show ?thesis by blast
qed

text \<open>Claim C7, the amended statement at the invocation above.\<close>

theorem one_model_call_one_fetch_before_deploy_witness:
  "deploys (trace (handler (demo_world (demo_candidate 500)) demo_message () True)) \<noteq> [] \<and>
   \<not> isUrl (demo_world (demo_candidate 500)) [] \<and>
   (\<exists>u req rs.
      trace (handler (demo_world (demo_candidate 500)) demo_message () True) =
        [EvGetMetrics (userId demo_message),
         EvModel (composeContext (demo_world (demo_candidate 500)) () collectionTemplate),
         EvFetch u, EvDeploy req] @ map EvCallback rs \<and>
      model_calls (trace (handler (demo_world (demo_candidate 500)) demo_message () True)) = 1 \<and>
      fetches (trace (handler (demo_world (demo_candidate 500)) demo_message () True)) = [u] \<and>
      deploys (trace (handler (demo_world (demo_candidate 500)) demo_message () True)) = [req])"
proof -
  have d: "deploys (trace (handler (demo_world (demo_candidate 500)) demo_message () True)) \<noteq> []"
    using demo_handler [OF demo_parse [of 500, simplified]] by simp
  have n: "\<not> isUrl (demo_world (demo_candidate 500)) []"
    by (simp add: demo_isUrl_sel demo_isUrl_def)
  from one_model_call_one_fetch_before_deploy [OF d n] d n show ?thesis by blast
qed

subsection \<open>C8: the royalty need not be an integer\<close>

text \<open>
  Claim C8, as stated: a royalty that passes the schema is an integer. The schema is
  \<^verbatim>\<open>z.number().min(0).max(10000)\<close>, with no \<^verbatim>\<open>.int()\<close>: a royalty of 2.5 passes.
\<close>

theorem fractional_royalty_accepted:
  "collectionSchema_parse demo_isUrl (demo_candidate (5/2)) =
     Inr \<lparr>name = ''My NFT Collection'', uri = demo_uri, royaltyBasisPoints = Some (5/2),
          creators = Some [\<lparr>address = ''SOLANA_ADDRESS'', percentage = 100\<rparr>]\<rparr> \<and>
   (5/2::rat) \<notin> \<int>"
  using half_not_int by (simp add: demo_parse)

text \<open>
  Claim C8, amended: the royalty of a candidate that passes the schema and gives one is
  the number the candidate gave, and lies between 0 and 10000, bounds included.
\<close>

theorem validated_royalty_in_range:
  assumes "collectionSchema_parse valid params = Inr vp"
    and "royaltyBasisPoints vp = Some r"
  shows "0 \<le> r \<and> r \<le> 10000 \<and>
         (\<exists>kvs. params = JObj kvs \<and> property kvs ''royaltyBasisPoints'' = JNum r)"
  using assms by (auto simp: collectionSchema_parse_Inr parse_royaltyBasisPoints_Inr)

text \<open>Claim C8, the amended statement at the royalty 2.5.\<close>

theorem validated_royalty_in_range_witness:
  "collectionSchema_parse demo_isUrl (demo_candidate (5/2)) =
     Inr \<lparr>name = ''My NFT Collection'', uri = demo_uri, royaltyBasisPoints = Some (5/2),
          creators = Some [\<lparr>address = ''SOLANA_ADDRESS'', percentage = 100\<rparr>]\<rparr> \<and>
   (0::rat) \<le> 5/2 \<and> (5/2::rat) \<le> 10000"
  using validated_royalty_in_range [of demo_isUrl "demo_candidate (5/2)"
      "\<lparr>name = ''My NFT Collection'', uri = demo_uri, royaltyBasisPoints = Some (5/2),
          creators = Some [\<lparr>address = ''SOLANA_ADDRESS'', percentage = 100\<rparr>]\<rparr>" "5/2"]
  by (simp add: demo_parse)

subsection \<open>C9: the metrics are never read\<close>

lemma getMetrics_update_reads:
  "validateMetadataUri (w\<lparr>getMetrics := g\<rparr>) u = validateMetadataUri w u"
  "default_uri (w\<lparr>getMetrics := g\<rparr>) = default_uri w"
  "deploy_block (w\<lparr>getMetrics := g\<rparr>) cb vp = deploy_block w cb vp"
  by (simp_all add: validateMetadataUri_def default_uri_def deploy_block_def cong: sum.case_cong)

text \<open>
  Claim C9: two worlds that differ only in what the database lookup returns for the
  message's user, neither throwing, give the same invocation: the same return value, the
  same calls with the same arguments, the same replies. A falsy result, for which the
  handler builds its fallback object, is one of the results.
\<close>

theorem metrics_never_read:
  assumes "getMetrics w (userId message) = Inr m" and "g (userId message) = Inr m'"
  shows "handler (w\<lparr>getMetrics := g\<rparr>) message state has_callback =
         handler w message state has_callback"
proof -
  have "metadata_block (w\<lparr>getMetrics := g\<rparr>) = metadata_block w"
    by (rule ext) (simp add: metadata_block_def getMetrics_update_reads)
  then have "try_block (w\<lparr>getMetrics := g\<rparr>) message state has_callback =
             try_block w message state has_callback"
    using assms by (simp add: try_block_def Let_def getMetrics_update_reads cong: sum.case_cong)
  then show ?thesis by (simp add: handler_def)
qed

text \<open>Claim C9, at a database without metrics against one that has some.\<close>

theorem metrics_never_read_witness:
  "getMetrics (demo_world (demo_candidate 500)) (userId demo_message) = Inr JNull \<and>
   handler ((demo_world (demo_candidate 500))
              \<lparr>getMetrics := \<lambda>u. Inr (JObj [(''defaultRoyalty'', JNum 250), (''defaultCreator'', JStr ''OTHER'')])\<rparr>)
      demo_message () True =
   handler (demo_world (demo_candidate 500)) demo_message () True"
  using metrics_never_read [of "demo_world (demo_candidate 500)" demo_message JNull
      "\<lambda>u. Inr (JObj [(''defaultRoyalty'', JNum 250), (''defaultCreator'', JStr ''OTHER'')])"
      "JObj [(''defaultRoyalty'', JNum 250), (''defaultCreator'', JStr ''OTHER'')]" "()" True]
  by (simp add: demo_reaches(2))

subsection \<open>C10: an empty list of creators\<close>

text \<open>
  Claim C10: a candidate whose \<^verbatim>\<open>creators\<close> is the empty list passes the schema's check
  of that key, and passes the schema when its other keys do; when it reaches the SDK,
  the request's list of creators is empty: the default creator stands in for a missing
  list only.
\<close>

theorem empty_creators_forwarded:
  assumes "truthy_str (content_text message) \<or> truthy_str (content_source message)"
    and "getMetrics w (userId message) = Inr m"
    and "generateObjectDeprecated w (composeContext w state collectionTemplate) = Inr (JObj kvs)"
    and "property kvs ''creators'' = JArr []"
    and "parse_name (property kvs ''name'') = Inr n"
    and "parse_uri (isUrl w) (property kvs ''uri'') = Inr u"
    and "parse_royaltyBasisPoints (property kvs ''royaltyBasisPoints'') = Inr ro"
    and "newSolanaAgentKit w (getSetting w ''SOLANA_PRIVATE_KEY'') (getSetting w ''SOLANA_RPC_URL'')
             (getSetting w ''OPENAI_API_KEY'') = Inr k"
  shows "parse_creators (property kvs ''creators'') = Inr (Some []) \<and>
         collectionSchema_parse (isUrl w) (JObj kvs) =
           Inr \<lparr>name = n, uri = u, royaltyBasisPoints = ro, creators = Some []\<rparr> \<and>
         map req_creators (deploys (trace (handler w message state has_callback))) = [[]]"
proof -
  have c: "parse_creators (property kvs ''creators'') = Inr (Some [])"
    using assms(4) by (simp add: parse_creators_def)
  then have p: "collectionSchema_parse (isUrl w) (JObj kvs) =
           Inr \<lparr>name = n, uri = u, royaltyBasisPoints = ro, creators = Some []\<rparr>"
    using assms(5,6,7) by (simp add: collectionSchema_parse_Inr)
  show ?thesis
    using handler_deploys [OF assms(1,2,3) p assms(8), of has_callback] c p
    by (simp add: deploy_request_def metadata_block_keeps)
qed

text \<open>Claim C10, at the template's example answer with no creator in its list.\<close>

theorem empty_creators_forwarded_witness:
  "property demo_fields_empty_creators ''creators'' = JArr [] \<and>
   collectionSchema_parse demo_isUrl (JObj demo_fields_empty_creators) =
     Inr \<lparr>name = ''My NFT Collection'', uri = demo_uri, royaltyBasisPoints = Some 500,
          creators = Some []\<rparr> \<and>
   map req_creators
     (deploys (trace (handler (demo_world (JObj demo_fields_empty_creators)) demo_message () True))) = [[]]"
  using empty_creators_forwarded [OF demo_reaches(1,2,3) _ _ _ _ demo_reaches(4),
      of demo_fields_empty_creators "''My NFT Collection''" demo_uri "Some 500" True]
  by (simp add: demo_isUrl_sel)
     (simp add: demo_fields_empty_creators_def property_def parse_name_def parse_uri_def
        parse_royaltyBasisPoints_def demo_isUrl_def demo_uri_def)

end
